theory Spec2Isabelle
  imports Main "HOL-Library.Word"
begin

unbundle bit_operations_syntax

chapter \<open>The embedding\<close>

section \<open>Machine integer types\<close>

type_synonym u8 = "8 word"
type_synonym u32 = "32 word"
type_synonym s32 = "32 word"

section \<open>Errors\<close>

text \<open>
  Undefined behaviour and aborts of the source are error values: an index past the end
  of an array or vector, and \<^verbatim>\<open>Panic\<close>.
\<close>

datatype error = OutOfBounds | Panic string

section \<open>The dither table (gpu\_sw\_rasterizer.cpp, lines 17--31)\<close>

text \<open>
  \<^verbatim>\<open>DITHER_MATRIX_SIZE\<close>, \<^verbatim>\<open>DITHER_LUT_SIZE\<close> and \<^verbatim>\<open>DITHER_MATRIX\<close> are constants of a
  header and are parameters here: the two sizes \<open>N\<close> and \<open>SZ\<close> (\<^verbatim>\<open>u32\<close> constants, so below
  \<open>2 ^ 32\<close>) and the matrix \<open>M\<close> of \<^verbatim>\<open>s32\<close> entries. A \<^verbatim>\<open>DitherLUT\<close> is a nested array of
  \<^verbatim>\<open>u8\<close>, indexed \<^verbatim>\<open>[i][j][value]\<close>.
\<close>

type_synonym DitherLUT = "u8 list list list"

text \<open>\<^verbatim>\<open>DitherLUT lut = {};\<close> every element zero.\<close>

definition lut_zero :: "nat \<Rightarrow> nat \<Rightarrow> DitherLUT" where
  "lut_zero N SZ = replicate N (replicate N (replicate SZ 0))"

text \<open>\<^verbatim>\<open>lut[i][j][value] = x;\<close>\<close>

definition lut_store :: "DitherLUT \<Rightarrow> nat \<Rightarrow> nat \<Rightarrow> nat \<Rightarrow> u8 \<Rightarrow> DitherLUT" where
  "lut_store lut i j v x = lut[i := (lut ! i)[j := (lut ! i ! j)[v := x]]]"

text \<open>
  The body of the innermost loop: the \<^verbatim>\<open>u32\<close> counter is cast to \<^verbatim>\<open>s32\<close> (the same
  32 bits), the matrix entry is added in \<^verbatim>\<open>s32\<close>, the sum is shifted right
  arithmetically by 3, and the result is clamped and narrowed to \<^verbatim>\<open>u8\<close>.
\<close>

definition dither_entry :: "s32 \<Rightarrow> nat \<Rightarrow> u8" where
  "dither_entry m v =
     (let dithered_value = signed_drop_bit 3 ((word_of_nat v :: s32) + m)
      in if dithered_value <s 0 then 0
         else if 31 <s dithered_value then 31
         else ucast dithered_value)"

text \<open>The three nested counting loops, innermost first.\<close>

function value_loop ::
  "nat \<Rightarrow> (nat \<Rightarrow> nat \<Rightarrow> s32) \<Rightarrow> nat \<Rightarrow> nat \<Rightarrow> nat \<Rightarrow> DitherLUT \<Rightarrow> DitherLUT" where
  "value_loop SZ M i j v lut =
     (if v < SZ then value_loop SZ M i j (Suc v) (lut_store lut i j v (dither_entry (M i j) v))
      else lut)"
  by pat_completeness auto
termination
  by (relation "measure (\<lambda>(SZ, M, i, j, v, lut). SZ - v)") auto

function j_loop ::
  "nat \<Rightarrow> nat \<Rightarrow> (nat \<Rightarrow> nat \<Rightarrow> s32) \<Rightarrow> nat \<Rightarrow> nat \<Rightarrow> DitherLUT \<Rightarrow> DitherLUT" where
  "j_loop N SZ M i j lut =
     (if j < N then j_loop N SZ M i (Suc j) (value_loop SZ M i j 0 lut) else lut)"
  by pat_completeness auto
termination
  by (relation "measure (\<lambda>(N, SZ, M, i, j, lut). N - j)") auto

function i_loop ::
  "nat \<Rightarrow> nat \<Rightarrow> (nat \<Rightarrow> nat \<Rightarrow> s32) \<Rightarrow> nat \<Rightarrow> DitherLUT \<Rightarrow> DitherLUT" where
  "i_loop N SZ M i lut =
     (if i < N then i_loop N SZ M (Suc i) (j_loop N SZ M i 0 lut) else lut)"
  by pat_completeness auto
termination
  by (relation "measure (\<lambda>(N, SZ, M, i, lut). N - i)") auto

declare value_loop.simps [simp del] j_loop.simps [simp del] i_loop.simps [simp del]

definition g_dither_lut :: "nat \<Rightarrow> nat \<Rightarrow> (nat \<Rightarrow> nat \<Rightarrow> s32) \<Rightarrow> DitherLUT" where
  "g_dither_lut N SZ M = i_loop N SZ M 0 (lut_zero N SZ)"

text \<open>
  The specification's wording of one entry, over the integers:
  \<open>(value + matrix[row][col]) >> shift\<close>, clamped to \<open>[0, max]\<close>, with shift 3 and
  maximum 31.
\<close>

definition dither_spec :: "int \<Rightarrow> nat \<Rightarrow> int" where
  "dither_spec m v = max 0 (min 31 ((int v + m) div 8))"

text \<open>
  The 4 by 4 ordered-dither matrix of the emulated hardware, used as a concrete instance.
\<close>

definition psx_dither_matrix :: "nat \<Rightarrow> nat \<Rightarrow> s32" where
  "psx_dither_matrix i j =
     word_of_int ([[-4, 0, -3, 1], [2, -2, 3, -1], [-3, 1, -4, 0], [3, -1, 2, -2]] ! i ! j)"

text \<open>Every row and cell of a table has the declared length.\<close>

definition lut_shape :: "nat \<Rightarrow> nat \<Rightarrow> DitherLUT \<Rightarrow> bool" where
  "lut_shape N SZ lut \<longleftrightarrow> length lut = N \<and> (\<forall>i<N. length (lut ! i) = N \<and> (\<forall>j<N. length (lut ! i ! j) = SZ))"

section \<open>The DXGI format table (d3d11\_texture.cpp, lines 12--50)\<close>

text \<open>
  \<^verbatim>\<open>DXGI_FORMAT\<close> is the enumeration of the platform header \<^verbatim>\<open>dxgiformat.h\<close>; the seven
  enumerators the table names have these values there.
\<close>

type_synonym DXGI_FORMAT = u32

definition DXGI_FORMAT_UNKNOWN :: DXGI_FORMAT where "DXGI_FORMAT_UNKNOWN = 0"
definition DXGI_FORMAT_R8G8B8A8_UNORM :: DXGI_FORMAT where "DXGI_FORMAT_R8G8B8A8_UNORM = 28"
definition DXGI_FORMAT_D16_UNORM :: DXGI_FORMAT where "DXGI_FORMAT_D16_UNORM = 55"
definition DXGI_FORMAT_R8_UNORM :: DXGI_FORMAT where "DXGI_FORMAT_R8_UNORM = 61"
definition DXGI_FORMAT_B5G6R5_UNORM :: DXGI_FORMAT where "DXGI_FORMAT_B5G6R5_UNORM = 85"
definition DXGI_FORMAT_B5G5R5A1_UNORM :: DXGI_FORMAT where "DXGI_FORMAT_B5G5R5A1_UNORM = 86"
definition DXGI_FORMAT_B8G8R8A8_UNORM :: DXGI_FORMAT where "DXGI_FORMAT_B8G8R8A8_UNORM = 87"

text \<open>
  \<^verbatim>\<open>GPUTexture::Format\<close> is an enumeration over \<^verbatim>\<open>u8\<close> declared in a header; a format is
  its \<^verbatim>\<open>u8\<close> value. \<^verbatim>\<open>Unknown\<close> is the first enumerator and \<^verbatim>\<open>Count\<close>, the number of
  formats, is the size of the table, which lists one entry for each format.
\<close>

type_synonym Format = u8

definition s_dxgi_mapping :: "DXGI_FORMAT list" where
  "s_dxgi_mapping =
     [DXGI_FORMAT_UNKNOWN, DXGI_FORMAT_R8G8B8A8_UNORM, DXGI_FORMAT_B8G8R8A8_UNORM,
      DXGI_FORMAT_B5G6R5_UNORM, DXGI_FORMAT_B5G5R5A1_UNORM, DXGI_FORMAT_R8_UNORM,
      DXGI_FORMAT_D16_UNORM]"

definition Format_Unknown :: Format where "Format_Unknown = 0"

definition Format_Count :: nat where "Format_Count = length s_dxgi_mapping"

text \<open>
  \<^verbatim>\<open>GetDXGIFormat\<close>: \<^verbatim>\<open>s_dxgi_mapping[static_cast<u8>(format)]\<close>. Indexing a
  \<^verbatim>\<open>std::array\<close> past its size is undefined; the model makes it an error.
\<close>

definition GetDXGIFormat :: "Format \<Rightarrow> error + DXGI_FORMAT" where
  "GetDXGIFormat format =
     (if unat format < length s_dxgi_mapping then Inr (s_dxgi_mapping ! unat format)
      else Inl OutOfBounds)"

text \<open>
  \<^verbatim>\<open>LookupBaseFormat\<close>: the loop over \<open>i\<close> from 0, returning the first index whose entry
  is \<open>dformat\<close>, and \<^verbatim>\<open>Format::Unknown\<close> after the loop.
\<close>

function LookupBaseFormat_loop :: "DXGI_FORMAT list \<Rightarrow> nat \<Rightarrow> DXGI_FORMAT \<Rightarrow> Format" where
  "LookupBaseFormat_loop tbl i dformat =
     (if i < length tbl
      then (if tbl ! i = dformat then word_of_nat i
            else LookupBaseFormat_loop tbl (Suc i) dformat)
      else Format_Unknown)"
  by pat_completeness auto
termination
  by (relation "measure (\<lambda>(tbl, i, dformat). length tbl - i)") auto

declare LookupBaseFormat_loop.simps [simp del]

definition LookupBaseFormat :: "DXGI_FORMAT \<Rightarrow> Format" where
  "LookupBaseFormat dformat = LookupBaseFormat_loop s_dxgi_mapping 0 dformat"

section \<open>Selecting the rasterizer implementation (gpu\_sw\_rasterizer.cpp, lines 36--91)\<close>

text \<open>
  The function tables exist once per namespace: the default one, \<^verbatim>\<open>AVX2\<close> and \<^verbatim>\<open>SSE4\<close>.
  A pointer to a table of a given kind is determined by the namespace of the table.
\<close>

datatype isa = Default | AVX2 | SSE4

fun isa_name :: "isa \<Rightarrow> string" where
  "isa_name Default = ''default''"
| "isa_name AVX2 = ''AVX2''"
| "isa_name SSE4 = ''SSE4''"

datatype log_level = LOG_ERROR | LOG_INFO

text \<open>
  What the function reads from outside: whether the build defines \<^verbatim>\<open>CPU_ARCH_SSE\<close>, the
  value of the environment variable (\<open>None\<close> for a null pointer), and the answers of the
  cpuinfo library.
\<close>

record environment =
  CPU_ARCH_SSE :: bool
  SW_USE_ISA :: "string option"
  cpuinfo_initialize :: bool
  cpuinfo_has_x86_avx2 :: bool
  cpuinfo_has_x86_sse4_1 :: bool

text \<open>
  The globals the function writes: its static flag, the three table pointers, and the log.
\<close>

record rasterizer_state =
  selected :: bool
  SelectedDrawRectangleFunctions :: isa
  SelectedDrawTriangleFunctions :: isa
  SelectedDrawLineFunctions :: isa
  log_output :: "(log_level \<times> string) list"

text \<open>The state at program start: the initialisers of lines 43--45 and of the flag.\<close>

definition initial_state :: rasterizer_state where
  "initial_state =
     \<lparr>selected = False,
      SelectedDrawRectangleFunctions = Default,
      SelectedDrawTriangleFunctions = Default,
      SelectedDrawLineFunctions = Default,
      log_output = []\<rparr>"

definition tolower :: "char \<Rightarrow> char" where
  "tolower c = (let n = (of_char c :: nat) in if 65 \<le> n \<and> n \<le> 90 then char_of (n + 32) else c)"

text \<open>
  Modelled from the spec: \<^verbatim>\<open>StringUtil::Strcasecmp\<close> is declared in
  \<^verbatim>\<open>common/string_util.h\<close>, which is not among the sources. The specification calls the
  comparison a case-insensitive match; this is the C library's \<^verbatim>\<open>strcasecmp\<close>, which
  compares the lower-cased bytes and returns the difference at the first mismatch.
\<close>

fun Strcasecmp :: "string \<Rightarrow> string \<Rightarrow> int" where
  "Strcasecmp [] [] = 0"
| "Strcasecmp [] (y # ys) = - int (of_char (tolower y))"
| "Strcasecmp (x # xs) [] = int (of_char (tolower x))"
| "Strcasecmp (x # xs) (y # ys) =
     (if tolower x = tolower y then Strcasecmp xs ys
      else int (of_char (tolower x)) - int (of_char (tolower y)))"

definition Log_Print :: "log_level \<Rightarrow> string \<Rightarrow> rasterizer_state \<Rightarrow> rasterizer_state" where
  "Log_Print lvl msg s = s\<lparr>log_output := log_output s @ [(lvl, msg)]\<rparr>"

text \<open>The macro \<^verbatim>\<open>SELECT_ALTERNATIVE_RASTERIZER(isa)\<close>: one log line, three assignments.\<close>

definition SELECT_ALTERNATIVE_RASTERIZER :: "isa \<Rightarrow> rasterizer_state \<Rightarrow> rasterizer_state" where
  "SELECT_ALTERNATIVE_RASTERIZER i s =
     (let s1 = Log_Print LOG_INFO (''* Using '' @ isa_name i @ '' software rasterizer implementation.'') s;
          s2 = s1\<lparr>SelectedDrawRectangleFunctions := i\<rparr>;
          s3 = s2\<lparr>SelectedDrawTriangleFunctions := i\<rparr>
      in s3\<lparr>SelectedDrawLineFunctions := i\<rparr>)"

text \<open>The test \<^verbatim>\<open>(!use_isa || StringUtil::Strcasecmp(use_isa, name) == 0)\<close>.\<close>

definition use_isa_allows :: "string option \<Rightarrow> string \<Rightarrow> bool" where
  "use_isa_allows use_isa name =
     (case use_isa of None \<Rightarrow> True | Some u \<Rightarrow> Strcasecmp u name = 0)"

definition SelectImplementation :: "environment \<Rightarrow> rasterizer_state \<Rightarrow> rasterizer_state" where
  "SelectImplementation env s =
     (if selected s then s
      else
        let s = s\<lparr>selected := True\<rparr>
        in if CPU_ARCH_SSE env then
             (let use_isa = SW_USE_ISA env
              in if \<not> cpuinfo_initialize env then
                   Log_Print LOG_ERROR ''cpuinfo_initialize() failed, using default implementation'' s
                 else if cpuinfo_has_x86_avx2 env \<and> use_isa_allows use_isa ''AVX2'' then
                   SELECT_ALTERNATIVE_RASTERIZER AVX2 s
                 else if cpuinfo_has_x86_sse4_1 env \<and> use_isa_allows use_isa ''SSE4'' then
                   SELECT_ALTERNATIVE_RASTERIZER SSE4 s
                 else Log_Print LOG_INFO ''* Using default software rasterizer implementation.'' s)
           else Log_Print LOG_INFO ''* Using default software rasterizer implementation.'' s)"

text \<open>The three table pointers together.\<close>

definition selected_tables :: "rasterizer_state \<Rightarrow> isa \<times> isa \<times> isa" where
  "selected_tables s =
     (SelectedDrawRectangleFunctions s, SelectedDrawTriangleFunctions s, SelectedDrawLineFunctions s)"

text \<open>
  The specification's best-available selection: the highest tier the CPU supports, the
  tiers being AVX2 above SSE4 above the default.
\<close>

definition best_available :: "environment \<Rightarrow> isa" where
  "best_available env =
     (if cpuinfo_has_x86_avx2 env then AVX2
      else if cpuinfo_has_x86_sse4_1 env then SSE4
      else Default)"

text \<open>A machine with SSE4.1 and without AVX2, started with \<^verbatim>\<open>SW_USE_ISA=AVX2\<close>.\<close>

definition env_sse4_only_asks_avx2 :: environment where
  "env_sse4_only_asks_avx2 =
     \<lparr>CPU_ARCH_SSE = True, SW_USE_ISA = Some ''AVX2'', cpuinfo_initialize = True,
      cpuinfo_has_x86_avx2 = False, cpuinfo_has_x86_sse4_1 = True\<rparr>"

text \<open>Calling the function once for each environment of a list, in order.\<close>

definition SelectImplementation_calls :: "environment list \<Rightarrow> rasterizer_state \<Rightarrow> rasterizer_state" where
  "SelectImplementation_calls envs s = foldl (\<lambda>s env. SelectImplementation env s) s envs"

section \<open>The translation string cache (host.cpp, lines 31--37 and 230--329)\<close>

definition TRANSLATION_STRING_CACHE_SIZE :: u32 where
  "TRANSLATION_STRING_CACHE_SIZE = 4 * 1024 * 1024"

type_synonym TranslationStringMap = "string \<rightharpoonup> (u32 \<times> u32)"
type_synonym TranslationStringContextMap = "string \<rightharpoonup> TranslationStringMap"

text \<open>
  The globals of the cache. The vector is a list of its elements, so its size is the
  length of the list; the messages of \<^verbatim>\<open>Log_ErrorPrint\<close> are collected in a list. The
  shared mutex is left out: the model runs one call at a time.
\<close>

record translation_state =
  s_translation_string_map :: TranslationStringContextMap
  s_translation_string_cache :: "char list"
  s_translation_string_cache_pos :: u32
  host_log :: "string list"

text \<open>The globals at program start: an empty map, an empty vector, position zero.\<close>

definition initial_translation_state :: translation_state where
  "initial_translation_state =
     \<lparr>s_translation_string_map = Map.empty,
      s_translation_string_cache = [],
      s_translation_string_cache_pos = 0,
      host_log = []\<rparr>"

text \<open>
  \<^verbatim>\<open>&v[i]\<close>: \<^verbatim>\<open>std::vector::operator[]\<close> requires \<open>i < v.size()\<close>; otherwise the
  behaviour is undefined. A pointer into the vector is the index of its element.
\<close>

definition vector_ref :: "'a list \<Rightarrow> nat \<Rightarrow> error + nat" where
  "vector_ref v i = (if i < length v then Inr i else Inl OutOfBounds)"

text \<open>
  \<^verbatim>\<open>Internal::GetTranslatedStringImpl\<close> is the host's function and a parameter here: for a
  context, a message and the space of the buffer it answers \<open>None\<close> for a negative
  return value, or the bytes it wrote at the start of the buffer, whose number it
  returns.
\<close>

type_synonym translator = "string \<Rightarrow> string \<Rightarrow> nat \<Rightarrow> string option"

text \<open>
  One call \<^verbatim>\<open>GetTranslatedStringImpl(context, msg, &cache[pos], SIZE - 1 - pos)\<close>
  (lines 274--276 and 280--282).
\<close>

definition translate_into_cache ::
  "translator \<Rightarrow> string \<Rightarrow> string \<Rightarrow> translation_state \<Rightarrow> error + (string option \<times> translation_state)" where
  "translate_into_cache impl context msg s =
     (let cache = s_translation_string_cache s;
          pos = unat (s_translation_string_cache_pos s);
          space = unat (TRANSLATION_STRING_CACHE_SIZE - 1 - s_translation_string_cache_pos s)
      in case vector_ref cache pos of
           Inl e \<Rightarrow> Inl e
         | Inr p \<Rightarrow>
             (case impl context msg space of
                None \<Rightarrow> Inr (None, s)
              | Some t \<Rightarrow>
                  if p + length t \<le> length cache
                  then Inr (Some t,
                         s\<lparr>s_translation_string_cache := take p cache @ t @ drop (p + length t) cache\<rparr>)
                  else Inl OutOfBounds))"

text \<open>The label \<^verbatim>\<open>add_string\<close> and what follows it (lines 262--304).\<close>

definition add_string ::
  "translator \<Rightarrow> string \<Rightarrow> string \<Rightarrow> translation_state \<Rightarrow> error + ((nat \<times> u32) \<times> translation_state)" where
  "add_string impl context msg s =
     (let s1 = (if s_translation_string_cache s = []
                then s\<lparr>s_translation_string_cache :=
                         (replicate (unat TRANSLATION_STRING_CACHE_SIZE) (CHR 0x00))[0 := CHR 0x00],
                       s_translation_string_cache_pos := 0\<rparr>
                else s);
          translated =
            (case translate_into_cache impl context msg s1 of
               Inl e \<Rightarrow> Inl e
             | Inr (Some t, s2) \<Rightarrow> Inr (t, s2)
             | Inr (None, s2) \<Rightarrow>
                 (let s3 = s2\<lparr>host_log := host_log s2 @
                              [''WARNING: Clearing translation string cache, it might need to be larger.''],
                            s_translation_string_cache_pos := 0\<rparr>
                  in case translate_into_cache impl context msg s3 of
                       Inl e \<Rightarrow> Inl e
                     | Inr (Some t, s4) \<Rightarrow> Inr (t, s4)
                     | Inr (None, s4) \<Rightarrow>
                         Inl (Panic ''Failed to get translated string after clearing cache.'')))
      in case translated of
           Inl e \<Rightarrow> Inl e
         | Inr (t, s5) \<Rightarrow>
             (let len = (word_of_nat (length t) :: u32);
                  ctx_map = (case s_translation_string_map s5 context of
                               None \<Rightarrow> Map.empty | Some m \<Rightarrow> m);
                  insert_pos = s_translation_string_cache_pos s5;
                  cache = s_translation_string_cache s5
              in case vector_ref cache (unat (insert_pos + len)) of
                   Inl e \<Rightarrow> Inl e
                 | Inr z \<Rightarrow>
                     (let cache' = cache[z := CHR 0x00];
                          ctx_map' = (if ctx_map msg = None then ctx_map(msg \<mapsto> (insert_pos, len))
                                      else ctx_map);
                          s6 = s5\<lparr>s_translation_string_map :=
                                    (s_translation_string_map s5)(context \<mapsto> ctx_map'),
                                  s_translation_string_cache := cache',
                                  s_translation_string_cache_pos := insert_pos + len + 1\<rparr>
                      in case vector_ref cache' (unat insert_pos) of
                           Inl e \<Rightarrow> Inl e
                         | Inr p \<Rightarrow> Inr ((p, len), s6))))"

text \<open>
  \<^verbatim>\<open>Host::LookupTranslationString\<close>. The result is the pair of the pointer (an index
  into the cache vector) and the length, with the state after the call.
\<close>

definition LookupTranslationString ::
  "translator \<Rightarrow> string \<Rightarrow> string \<Rightarrow> translation_state \<Rightarrow> error + ((nat \<times> u32) \<times> translation_state)" where
  "LookupTranslationString impl context msg s =
     (if msg = [] then
        (case vector_ref (s_translation_string_cache s) 0 of
           Inl e \<Rightarrow> Inl e
         | Inr p \<Rightarrow> Inr ((p, 0), s))
      else
        (case s_translation_string_map s context of
           None \<Rightarrow> add_string impl context msg s
         | Some ctx_map \<Rightarrow>
             (case ctx_map msg of
                None \<Rightarrow> add_string impl context msg s
              | Some (first, second) \<Rightarrow>
                  (case vector_ref (s_translation_string_cache s) (unat first) of
                     Inl e \<Rightarrow> Inl e
                   | Inr p \<Rightarrow> Inr ((p, second), s)))))"

text \<open>\<^verbatim>\<open>Host::ClearTranslationCache\<close>: the map is cleared, the vector keeps its size.\<close>

definition ClearTranslationCache :: "translation_state \<Rightarrow> translation_state" where
  "ClearTranslationCache s =
     s\<lparr>s_translation_string_map := Map.empty, s_translation_string_cache_pos := 0\<rparr>"

text \<open>A host translator that answers every message with itself when it fits.\<close>

definition identity_translator :: translator where
  "identity_translator context msg space = (if length msg \<le> space then Some msg else None)"

section \<open>The rasterizer primitives (gpu\_sw\_rasterizer.inl, included at line 38)\<close>

text \<open>
  The source keeps the clip rectangle in \<^verbatim>\<open>Common::Rectangle<u32> g_drawing_area\<close>
  (line 33): four unsigned bounds, the minimum and maximum \<open>x\<close> and \<open>y\<close>, both inclusive.
\<close>

record DrawingArea =
  da_left :: nat
  da_top :: nat
  da_right :: nat
  da_bottom :: nat

type_synonym point = "int \<times> int"
type_synonym colour = nat

definition in_drawing_area :: "DrawingArea \<Rightarrow> point \<Rightarrow> bool" where
  "in_drawing_area da p =
     (int (da_left da) \<le> fst p \<and> fst p \<le> int (da_right da)
      \<and> int (da_top da) \<le> snd p \<and> snd p \<le> int (da_bottom da))"

text \<open>
  Modelled from the spec: the framebuffer belongs to the GPU core, whose code is not among
  the sources. It is a pixel store of a fixed width and height; a pixel is a colour and
  the 1-bit mask flag. An access outside the bounds is an error of the model.
\<close>

record pixel =
  px_colour :: colour
  px_mask :: bool

record framebuffer =
  fb_width :: nat
  fb_height :: nat
  fb_pixels :: "point \<Rightarrow> pixel"

definition in_framebuffer :: "framebuffer \<Rightarrow> point \<Rightarrow> bool" where
  "in_framebuffer fb p =
     (0 \<le> fst p \<and> fst p < int (fb_width fb) \<and> 0 \<le> snd p \<and> snd p < int (fb_height fb))"


text \<open>
  The state of a draw call: the framebuffer and, in order, the addresses written so far.
\<close>

type_synonym raster_state = "framebuffer \<times> point list"

definition GetPixel :: "framebuffer \<Rightarrow> point \<Rightarrow> error + pixel" where
  "GetPixel fb p = (if in_framebuffer fb p then Inr (fb_pixels fb p) else Inl OutOfBounds)"

definition SetPixel :: "point \<Rightarrow> pixel \<Rightarrow> raster_state \<Rightarrow> error + raster_state" where
  "SetPixel p v st =
     (if in_framebuffer (fst st) p
      then Inr ((fst st)\<lparr>fb_pixels := (fb_pixels (fst st))(p := v)\<rparr>, snd st @ [p])
      else Inl OutOfBounds)"

text \<open>
  Modelled from the spec: the per-pixel pipeline of the routines in
  \<^verbatim>\<open>gpu_sw_rasterizer.inl\<close>, which is not among the sources. For each pixel the
  routine optionally samples a texture, with the colour-key test; optionally blends
  with the existing framebuffer pixel; optionally applies dithering; then writes the
  pixel and the mask flag unless masked by existing content. The texture, blend and
  dither arithmetic is the hardware's and is a parameter: \<open>sample\<close> gives the colour for
  a position, or \<open>None\<close> where the colour-key test rejects the texel.
\<close>

record pipeline =
  sample :: "point \<Rightarrow> colour option"
  blend :: "colour \<Rightarrow> colour \<Rightarrow> colour"
  dither :: "point \<Rightarrow> colour \<Rightarrow> colour"
  check_mask :: bool
  set_mask :: bool

definition ShadePixel :: "pipeline \<Rightarrow> point \<Rightarrow> raster_state \<Rightarrow> error + raster_state" where
  "ShadePixel pl p st =
     (case sample pl p of
        None \<Rightarrow> Inr st
      | Some c \<Rightarrow>
          (case GetPixel (fst st) p of
             Inl e \<Rightarrow> Inl e
           | Inr bg \<Rightarrow>
               if check_mask pl \<and> px_mask bg then Inr st
               else SetPixel p \<lparr>px_colour = dither pl p (blend pl (px_colour bg) c),
                                px_mask = set_mask pl\<rparr> st))"

text \<open>
  Modelled from the spec: the clipping of the routines in \<^verbatim>\<open>gpu_sw_rasterizer.inl\<close>,
  which is not among the sources. A pixel address outside the drawing area or outside
  the framebuffer is prevented by construction: the clipping is computed before any
  write, so the pipeline runs only on the positions that pass this test.
\<close>

definition clip_test :: "DrawingArea \<Rightarrow> framebuffer \<Rightarrow> point \<Rightarrow> bool" where
  "clip_test da fb p = (in_drawing_area da p \<and> in_framebuffer fb p)"

text \<open>A counting loop over a list of values that stops at the first error.\<close>

fun for_each :: "'a list \<Rightarrow> ('a \<Rightarrow> 's \<Rightarrow> error + 's) \<Rightarrow> 's \<Rightarrow> error + 's" where
  "for_each [] f s = Inr s"
| "for_each (x # xs) f s = (case f x s of Inl e \<Rightarrow> Inl e | Inr s' \<Rightarrow> for_each xs f s')"












text \<open>
  What the clipping invariant says of the state in which a draw call on the framebuffer
  \<open>fb\<close> ends: every address written lies in the drawing area and in the framebuffer, and
  every pixel outside this intersection is as it was.
\<close>

definition writes_clipped :: "DrawingArea \<Rightarrow> framebuffer \<Rightarrow> raster_state \<Rightarrow> bool" where
  "writes_clipped da fb st =
     ((\<forall>p \<in> set (snd st). in_drawing_area da p \<and> in_framebuffer fb p)
      \<and> (\<forall>q. \<not> (in_drawing_area da q \<and> in_framebuffer fb q) \<longrightarrow>
             fb_pixels (fst st) q = fb_pixels fb q))"

text \<open>The invariant of the loops, relative to the framebuffer at the start of the call.\<close>

definition writes_within :: "DrawingArea \<Rightarrow> framebuffer \<Rightarrow> raster_state \<Rightarrow> bool" where
  "writes_within da fb st =
     (fb_width (fst st) = fb_width fb \<and> fb_height (fst st) = fb_height fb
      \<and> writes_clipped da fb st)"








chapter \<open>Verification\<close>

section \<open>Correctness of the dither table\<close>

lemma lut_shape_zero: "lut_shape N SZ (lut_zero N SZ)"
  by (simp add: lut_shape_def lut_zero_def)

lemma lut_store_nth:
  "lut_shape N SZ lut \<Longrightarrow> i < N \<Longrightarrow> j < N \<Longrightarrow> v < SZ \<Longrightarrow> i' < N \<Longrightarrow> j' < N \<Longrightarrow>
   lut_store lut i j v x ! i' ! j' ! v' = (if i' = i \<and> j' = j \<and> v' = v then x else lut ! i' ! j' ! v')"
  by (auto simp: lut_store_def lut_shape_def nth_list_update)

lemma lut_shape_store:
  "lut_shape N SZ lut \<Longrightarrow> i < N \<Longrightarrow> j < N \<Longrightarrow> lut_shape N SZ (lut_store lut i j v x)"
  by (auto simp: lut_store_def lut_shape_def nth_list_update)

lemma value_loop_shape:
  "lut_shape N SZ lut \<Longrightarrow> i < N \<Longrightarrow> j < N \<Longrightarrow> lut_shape N SZ (value_loop SZ M i j v lut)"
proof (induction SZ M i j v lut rule: value_loop.induct)
  case (1 SZ M i j v lut)
  show ?case
  proof (cases "v < SZ")
    case True
    then show ?thesis
      using 1 by (subst value_loop.simps) (simp add: lut_shape_store)
  next
    case False
    then show ?thesis using 1 by (subst value_loop.simps) simp
  qed
qed

lemma value_loop_nth:
  "lut_shape N SZ lut \<Longrightarrow> i < N \<Longrightarrow> j < N \<Longrightarrow> i' < N \<Longrightarrow> j' < N \<Longrightarrow>
   value_loop SZ M i j v lut ! i' ! j' ! v' =
     (if i' = i \<and> j' = j \<and> v \<le> v' \<and> v' < SZ then dither_entry (M i j) v' else lut ! i' ! j' ! v')"
proof (induction SZ M i j v lut rule: value_loop.induct)
  case (1 SZ M i j v lut)
  show ?case
  proof (cases "v < SZ")
    case True
    have sh: "lut_shape N SZ (lut_store lut i j v (dither_entry (M i j) v))"
      using 1 by (simp add: lut_shape_store)
    have "value_loop SZ M i j v lut ! i' ! j' ! v' =
          value_loop SZ M i j (Suc v) (lut_store lut i j v (dither_entry (M i j) v)) ! i' ! j' ! v'"
      using True by (subst value_loop.simps) simp
    also have "\<dots> = (if i' = i \<and> j' = j \<and> Suc v \<le> v' \<and> v' < SZ then dither_entry (M i j) v'
                     else lut_store lut i j v (dither_entry (M i j) v) ! i' ! j' ! v')"
      using "1.IH" [OF True sh] "1.prems" by simp
    also have "\<dots> = (if i' = i \<and> j' = j \<and> v \<le> v' \<and> v' < SZ then dither_entry (M i j) v' else lut ! i' ! j' ! v')"
      using "1.prems" True by (auto simp: lut_store_nth [where N = N and SZ = SZ])
    finally show ?thesis .
  next
    case False
    then show ?thesis by (subst value_loop.simps) auto
  qed
qed

lemma j_loop_shape:
  "lut_shape N SZ lut \<Longrightarrow> i < N \<Longrightarrow> lut_shape N SZ (j_loop N SZ M i j lut)"
proof (induction N SZ M i j lut rule: j_loop.induct)
  case (1 N SZ M i j lut)
  show ?case
  proof (cases "j < N")
    case True
    then show ?thesis
      using 1 by (subst j_loop.simps) (simp add: value_loop_shape)
  next
    case False
    then show ?thesis using 1 by (subst j_loop.simps) simp
  qed
qed

lemma j_loop_nth:
  "lut_shape N SZ lut \<Longrightarrow> i < N \<Longrightarrow> i' < N \<Longrightarrow> j' < N \<Longrightarrow>
   j_loop N SZ M i j lut ! i' ! j' ! v' =
     (if i' = i \<and> j \<le> j' \<and> v' < SZ then dither_entry (M i j') v' else lut ! i' ! j' ! v')"
proof (induction N SZ M i j lut rule: j_loop.induct)
  case (1 N SZ M i j lut)
  show ?case
  proof (cases "j < N")
    case True
    have sh: "lut_shape N SZ (value_loop SZ M i j 0 lut)"
      using 1 True by (simp add: value_loop_shape)
    have "j_loop N SZ M i j lut ! i' ! j' ! v' =
          j_loop N SZ M i (Suc j) (value_loop SZ M i j 0 lut) ! i' ! j' ! v'"
      using True by (subst j_loop.simps) simp
    also have "\<dots> = (if i' = i \<and> Suc j \<le> j' \<and> v' < SZ then dither_entry (M i j') v'
                     else value_loop SZ M i j 0 lut ! i' ! j' ! v')"
      using "1.IH" [OF True sh] "1.prems" by simp
    also have "\<dots> = (if i' = i \<and> j \<le> j' \<and> v' < SZ then dither_entry (M i j') v' else lut ! i' ! j' ! v')"
      using "1.prems" True by (auto simp: value_loop_nth [where N = N])
    finally show ?thesis .
  next
    case False
    then show ?thesis using "1.prems" by (subst j_loop.simps) auto
  qed
qed

lemma i_loop_nth:
  "lut_shape N SZ lut \<Longrightarrow> i' < N \<Longrightarrow> j' < N \<Longrightarrow>
   i_loop N SZ M i lut ! i' ! j' ! v' =
     (if i \<le> i' \<and> v' < SZ then dither_entry (M i' j') v' else lut ! i' ! j' ! v')"
proof (induction N SZ M i lut rule: i_loop.induct)
  case (1 N SZ M i lut)
  show ?case
  proof (cases "i < N")
    case True
    have sh: "lut_shape N SZ (j_loop N SZ M i 0 lut)"
      using 1 True by (simp add: j_loop_shape)
    have "i_loop N SZ M i lut ! i' ! j' ! v' =
          i_loop N SZ M (Suc i) (j_loop N SZ M i 0 lut) ! i' ! j' ! v'"
      using True by (subst i_loop.simps) simp
    also have "\<dots> = (if Suc i \<le> i' \<and> v' < SZ then dither_entry (M i' j') v'
                     else j_loop N SZ M i 0 lut ! i' ! j' ! v')"
      using "1.IH" [OF True sh] "1.prems" by simp
    also have "\<dots> = (if i \<le> i' \<and> v' < SZ then dither_entry (M i' j') v' else lut ! i' ! j' ! v')"
      using "1.prems" True by (auto simp: j_loop_nth [where N = N])
    finally show ?thesis .
  next
    case False
    then show ?thesis using "1.prems" by (subst i_loop.simps) auto
  qed
qed

lemma g_dither_lut_nth:
  "i < N \<Longrightarrow> j < N \<Longrightarrow> v < SZ \<Longrightarrow> g_dither_lut N SZ M ! i ! j ! v = dither_entry (M i j) v"
  by (simp add: g_dither_lut_def i_loop_nth [where N = N] lut_shape_zero)

lemma sint_dither_shift:
  "sint (signed_drop_bit 3 (w :: s32)) = sint w div 8"
  by (simp add: sint_signed_drop_bit_eq drop_bit_eq_div)

lemma uint_ucast_small:
  fixes d :: s32
  assumes "0 \<le> sint d" "sint d \<le> 31"
  shows "uint (ucast d :: u8) = sint d"
proof -
  have "uint d = take_bit 32 (sint d)"
    by (simp add: uint_sint)
  also have "\<dots> = sint d"
    using assms by (intro take_bit_int_eq_self) simp_all
  finally have ud: "uint d = sint d" .
  have "uint (ucast d :: u8) = take_bit 8 (uint d)"
    by (simp add: unsigned_ucast_eq)
  also have "\<dots> = sint d"
    unfolding ud using assms by (intro take_bit_int_eq_self) simp_all
  finally show ?thesis .
qed

lemma dither_entry_uint:
  "uint (dither_entry m v) = max 0 (min 31 (sint ((word_of_nat v :: s32) + m) div 8))"
  using uint_ucast_small
  by (auto simp: dither_entry_def Let_def word_sless_alt sint_dither_shift max_def min_def)

lemma sint_add_no_overflow:
  fixes m :: s32
  assumes "int v + sint m < 2 ^ 31"
  shows "sint ((word_of_nat v :: s32) + m) = int v + sint m"
proof -
  have lo: "- (2 ^ 31) \<le> int v + sint m"
    using sint_ge [of m] by simp
  have "(word_of_nat v :: s32) + m = word_of_int (int v + sint m)"
    by simp
  then have "sint ((word_of_nat v :: s32) + m) = signed_take_bit 31 (int v + sint m)"
    by (simp only: sint_sbintrunc') simp
  also have "\<dots> = int v + sint m"
    using lo assms by (intro signed_take_bit_int_eq_self) simp_all
  finally show ?thesis .
qed

lemma dither_entry_spec:
  assumes "int v + sint m < 2 ^ 31"
  shows "uint (dither_entry m v) = dither_spec (sint m) v"
  by (simp add: dither_entry_uint sint_add_no_overflow [OF assms] dither_spec_def)

lemma dither_entry_le_31: "dither_entry m v \<le> 31"
proof -
  have "uint (dither_entry m v) \<le> 31"
    by (simp add: dither_entry_uint)
  then show ?thesis
    by (simp add: word_le_def)
qed

lemma dither_spec_mono: "v \<le> v' \<Longrightarrow> dither_spec m v \<le> dither_spec m v'"
proof -
  assume "v \<le> v'"
  then have "(int v + m) div 8 \<le> (int v' + m) div 8"
    by (intro zdiv_mono1) simp_all
  then show ?thesis
    by (simp add: dither_spec_def max_def min_def)
qed

text \<open>
  C3. For every dither-matrix position \<open>(i, j)\<close> with \<open>i, j < DITHER_MATRIX_SIZE\<close> and every
  input value \<open>v < DITHER_LUT_SIZE\<close>, the entry \<open>g_dither_lut[i][j][v]\<close> is the \<^verbatim>\<open>s32\<close> sum
  \<open>v + DITHER_MATRIX[i][j]\<close> shifted right arithmetically by 3 (the floor of the eighth)
  and clamped to \<open>[0, 31]\<close>; every entry is at most 31; and when the sum does not leave the
  \<^verbatim>\<open>s32\<close> range the entry is the specification's value over the integers.
\<close>

theorem g_dither_lut_entry:
  assumes "i < N" "j < N" "v < SZ"
  shows "uint (g_dither_lut N SZ M ! i ! j ! v) =
           max 0 (min 31 (sint ((word_of_nat v :: s32) + M i j) div 8))
         \<and> g_dither_lut N SZ M ! i ! j ! v \<le> 31
         \<and> (int v + sint (M i j) < 2 ^ 31 \<longrightarrow>
              uint (g_dither_lut N SZ M ! i ! j ! v) = dither_spec (sint (M i j)) v)"
proof -
  have e: "g_dither_lut N SZ M ! i ! j ! v = dither_entry (M i j) v"
    using assms by (rule g_dither_lut_nth)
  show ?thesis
    unfolding e
    by (intro conjI impI dither_entry_uint dither_entry_le_31 dither_entry_spec)
qed

theorem g_dither_lut_entry_witness:
  "(3::nat) < 4 \<and> (2::nat) < 4 \<and> (200::nat) < 512
   \<and> int 200 + sint (psx_dither_matrix 3 2) < 2 ^ 31
   \<and> uint (g_dither_lut 4 512 psx_dither_matrix ! 3 ! 2 ! 200) = 25
   \<and> dither_spec (sint (psx_dither_matrix 3 2)) 200 = 25"
  using g_dither_lut_entry [of 3 4 2 200 512 psx_dither_matrix]
  by (simp add: psx_dither_matrix_def dither_spec_def)

text \<open>
  C4. For every fixed dither-matrix position \<open>(r, c)\<close> the table is monotonically
  non-decreasing in the input value: for \<open>v \<le> v'\<close> below \<open>DITHER_LUT_SIZE\<close>,
  \<open>g_dither_lut[r][c][v] \<le> g_dither_lut[r][c][v']\<close>. The matrix is a parameter, so the
  statement carries the condition under which the \<^verbatim>\<open>s32\<close> addition of the source is
  defined: the sum at the larger value stays in range.
\<close>

theorem g_dither_lut_mono:
  assumes "r < N" "c < N" "v \<le> v'" "v' < SZ" "int v' + sint (M r c) < 2 ^ 31"
  shows "g_dither_lut N SZ M ! r ! c ! v \<le> g_dither_lut N SZ M ! r ! c ! v'"
proof -
  have small: "int v + sint (M r c) < 2 ^ 31"
    using assms(3,5) by simp
  have "uint (dither_entry (M r c) v) \<le> uint (dither_entry (M r c) v')"
    using assms(3) by (simp add: dither_entry_spec [OF small] dither_entry_spec [OF assms(5)] dither_spec_mono)
  then have "dither_entry (M r c) v \<le> dither_entry (M r c) v'"
    by (simp add: word_le_def)
  then show ?thesis
    using assms by (simp add: g_dither_lut_nth)
qed

theorem g_dither_lut_mono_witness:
  "(1::nat) < 4 \<and> (3::nat) < 4 \<and> (7::nat) \<le> 300 \<and> (300::nat) < 512
   \<and> int 300 + sint (psx_dither_matrix 1 3) < 2 ^ 31
   \<and> g_dither_lut 4 512 psx_dither_matrix ! 1 ! 3 ! 7 \<le> g_dither_lut 4 512 psx_dither_matrix ! 1 ! 3 ! 300"
  using g_dither_lut_mono [of 1 4 3 7 300 512 psx_dither_matrix]
  by (simp add: psx_dither_matrix_def)

section \<open>The format lookup\<close>

lemma LookupBaseFormat_loop_first:
  "i \<le> k \<Longrightarrow> k < length tbl \<Longrightarrow> (\<forall>j. i \<le> j \<and> j < k \<longrightarrow> tbl ! j \<noteq> tbl ! k) \<Longrightarrow>
   LookupBaseFormat_loop tbl i (tbl ! k) = word_of_nat k"
proof (induction tbl i "tbl ! k" rule: LookupBaseFormat_loop.induct)
  case (1 tbl i)
  show ?case
  proof (cases "i = k")
    case True
    then show ?thesis
      using "1.prems" by (subst LookupBaseFormat_loop.simps) simp
  next
    case False
    then have lt: "i < k" using "1.prems" by simp
    then have ne: "tbl ! i \<noteq> tbl ! k" using "1.prems" by simp
    have il: "i < length tbl" using lt "1.prems" by simp
    have "LookupBaseFormat_loop tbl (Suc i) (tbl ! k) = word_of_nat k"
      using "1.hyps" [OF il ne] lt "1.prems" by simp
    then show ?thesis
      using il ne by (subst LookupBaseFormat_loop.simps) simp
  qed
qed

lemma distinct_s_dxgi_mapping: "distinct s_dxgi_mapping"
  by (simp add: s_dxgi_mapping_def DXGI_FORMAT_UNKNOWN_def DXGI_FORMAT_R8G8B8A8_UNORM_def
      DXGI_FORMAT_D16_UNORM_def DXGI_FORMAT_R8_UNORM_def DXGI_FORMAT_B5G6R5_UNORM_def
      DXGI_FORMAT_B5G5R5A1_UNORM_def DXGI_FORMAT_B8G8R8A8_UNORM_def)

lemma LookupBaseFormat_nth:
  assumes "k < length s_dxgi_mapping"
  shows "LookupBaseFormat (s_dxgi_mapping ! k) = word_of_nat k"
proof -
  have "\<forall>j. 0 \<le> j \<and> j < k \<longrightarrow> s_dxgi_mapping ! j \<noteq> s_dxgi_mapping ! k"
    using assms distinct_s_dxgi_mapping by (auto simp: distinct_conv_nth)
  then show ?thesis
    unfolding LookupBaseFormat_def using assms
    by (intro LookupBaseFormat_loop_first) simp_all
qed

section \<open>The format table round-trips\<close>

text \<open>
  C10. For every format \<open>f\<close> (every \<^verbatim>\<open>u8\<close> value below \<^verbatim>\<open>Format::Count\<close>, \<^verbatim>\<open>Unknown\<close>
  included), \<open>LookupBaseFormat (GetDXGIFormat f) = f\<close>: the entries of the table are
  pairwise distinct, and the lookup returns the index of the first matching entry.
\<close>

theorem dxgi_format_round_trip:
  assumes "unat f < Format_Count"
  shows "distinct s_dxgi_mapping
         \<and> GetDXGIFormat f = Inr (s_dxgi_mapping ! unat f)
         \<and> LookupBaseFormat (s_dxgi_mapping ! unat f) = f"
  using assms
  by (simp add: GetDXGIFormat_def Format_Count_def LookupBaseFormat_nth distinct_s_dxgi_mapping)

theorem dxgi_format_round_trip_witness:
  "unat (3 :: Format) < Format_Count
   \<and> GetDXGIFormat 3 = Inr DXGI_FORMAT_B5G6R5_UNORM
   \<and> LookupBaseFormat DXGI_FORMAT_B5G6R5_UNORM = 3"
  using dxgi_format_round_trip [of 3]
  by (simp add: Format_Count_def s_dxgi_mapping_def GetDXGIFormat_def)

section \<open>Selecting the implementation\<close>

lemma of_char_tolower:
  "(of_char (tolower c) :: nat) =
     (if 65 \<le> (of_char c :: nat) \<and> (of_char c :: nat) \<le> 90 then of_char c + 32 else of_char c)"
  by (simp add: tolower_def Let_def)

lemma tolower_nonzero:
  assumes "c \<noteq> CHR 0x00"
  shows "0 < (of_char (tolower c) :: nat)"
proof -
  have "(of_char c :: nat) \<noteq> of_char (CHR 0x00)"
    using assms by (simp only: of_char_eq_iff) simp
  then have "0 < (of_char c :: nat)"
    by simp
  then show ?thesis
    by (simp add: of_char_tolower)
qed

lemma Strcasecmp_eq_0_iff:
  "CHR 0x00 \<notin> set a \<Longrightarrow> CHR 0x00 \<notin> set b \<Longrightarrow>
   Strcasecmp a b = 0 \<longleftrightarrow> map tolower a = map tolower b"
proof (induction a b rule: Strcasecmp.induct)
  case 1
  then show ?case by simp
next
  case (2 y ys)
  then have "y \<noteq> CHR 0x00" by auto
  then show ?case using tolower_nonzero [of y] by simp
next
  case (3 x xs)
  then have "x \<noteq> CHR 0x00" by auto
  then show ?case using tolower_nonzero [of x] by simp
next
  case (4 x xs y ys)
  then show ?case by auto
qed

lemma use_isa_allows_Some:
  "CHR 0x00 \<notin> set name \<Longrightarrow> CHR 0x00 \<notin> set v \<Longrightarrow>
   use_isa_allows (Some name) v \<longleftrightarrow> map tolower name = map tolower v"
  by (simp add: use_isa_allows_def Strcasecmp_eq_0_iff)

lemma tolower_AVX2: "map tolower ''AVX2'' = ''avx2''"
  by (simp add: tolower_def char_of_eq_iff)

lemma tolower_SSE4: "map tolower ''SSE4'' = ''sse4''"
  by (simp add: tolower_def char_of_eq_iff)

lemma selected_SelectImplementation: "selected (SelectImplementation env s)"
  by (simp add: SelectImplementation_def Log_Print_def SELECT_ALTERNATIVE_RASTERIZER_def Let_def)

lemma selected_tables_Log_Print [simp]:
  "selected_tables (Log_Print lvl msg s) = selected_tables s"
  by (simp add: selected_tables_def Log_Print_def)

lemma selected_tables_selected_update [simp]:
  "selected_tables (s\<lparr>selected := b\<rparr>) = selected_tables s"
  by (simp add: selected_tables_def)

lemma selected_tables_SELECT [simp]:
  "selected_tables (SELECT_ALTERNATIVE_RASTERIZER i s) = (i, i, i)"
  by (simp add: selected_tables_def SELECT_ALTERNATIVE_RASTERIZER_def Log_Print_def Let_def)

lemma selected_tables_initial [simp]:
  "selected_tables initial_state = (Default, Default, Default)"
  by (simp add: selected_tables_def initial_state_def)

lemma SelectImplementation_no_override:
  assumes "CPU_ARCH_SSE env" "cpuinfo_initialize env" "SW_USE_ISA env = None"
  shows "selected_tables (SelectImplementation env initial_state) =
           (best_available env, best_available env, best_available env)"
proof -
  have ns: "\<not> selected initial_state"
    by (simp add: initial_state_def)
  show ?thesis
    using assms ns
    by (simp add: SelectImplementation_def Let_def best_available_def use_isa_allows_def)
qed

text \<open>
  C2, as amended. With the override set, the variant it names is selected when the name
  matches \<^verbatim>\<open>AVX2\<close> or \<^verbatim>\<open>SSE4\<close> up to the case of letters and the CPU supports that
  variant; for every other value (the name of an unsupported variant, an unrecognized
  name) the default tables stay selected, whatever else the CPU supports. The value of an
  environment variable is a C string and holds no NUL.
\<close>

theorem SelectImplementation_override:
  assumes "CPU_ARCH_SSE env" "cpuinfo_initialize env"
    and "SW_USE_ISA env = Some name" "CHR 0x00 \<notin> set name"
  shows "selected_tables (SelectImplementation env initial_state) =
           (if cpuinfo_has_x86_avx2 env \<and> map tolower name = ''avx2'' then (AVX2, AVX2, AVX2)
            else if cpuinfo_has_x86_sse4_1 env \<and> map tolower name = ''sse4'' then (SSE4, SSE4, SSE4)
            else (Default, Default, Default))"
proof -
  have a: "use_isa_allows (Some name) ''AVX2'' \<longleftrightarrow> map tolower name = ''avx2''"
    using assms(4) by (simp add: use_isa_allows_Some tolower_AVX2 del: list.map)
  have b: "use_isa_allows (Some name) ''SSE4'' \<longleftrightarrow> map tolower name = ''sse4''"
    using assms(4) by (simp add: use_isa_allows_Some tolower_SSE4 del: list.map)
  have ns: "\<not> selected initial_state"
    by (simp add: initial_state_def)
  show ?thesis
    using assms(1-3) ns by (simp add: SelectImplementation_def Let_def a b)
qed

theorem SelectImplementation_override_witness:
  "CPU_ARCH_SSE (env_sse4_only_asks_avx2\<lparr>SW_USE_ISA := Some ''sSe4''\<rparr>)
   \<and> cpuinfo_initialize (env_sse4_only_asks_avx2\<lparr>SW_USE_ISA := Some ''sSe4''\<rparr>)
   \<and> CHR 0x00 \<notin> set ''sSe4''
   \<and> selected_tables
        (SelectImplementation (env_sse4_only_asks_avx2\<lparr>SW_USE_ISA := Some ''sSe4''\<rparr>) initial_state) =
       (SSE4, SSE4, SSE4)"
  using SelectImplementation_override
          [of "env_sse4_only_asks_avx2\<lparr>SW_USE_ISA := Some ''sSe4''\<rparr>" "''sSe4''"]
  by (simp add: env_sse4_only_asks_avx2_def tolower_def char_of_eq_iff)

text \<open>
  C2 as stated fails: on a machine with SSE4.1 and without AVX2, started with
  \<^verbatim>\<open>SW_USE_ISA=AVX2\<close>, the highest supported tier is SSE4, and the function leaves the
  default tables selected.
\<close>

theorem SelectImplementation_override_counterexample:
  "best_available env_sse4_only_asks_avx2 = SSE4
   \<and> selected_tables (SelectImplementation env_sse4_only_asks_avx2 initial_state) =
       (Default, Default, Default)"
  by (simp add: env_sse4_only_asks_avx2_def best_available_def SelectImplementation_def
      initial_state_def selected_tables_def Log_Print_def use_isa_allows_def tolower_def
      char_of_eq_iff)

text \<open>
  C5. A second call changes nothing: after any call the static flag is set, so the next
  call, whatever it reads from the environment, returns the state it was given; the
  three table pointers are those of the first call.
\<close>

theorem SelectImplementation_idempotent:
  "SelectImplementation env' (SelectImplementation env s) = SelectImplementation env s
   \<and> selected_tables (SelectImplementation env' (SelectImplementation env s)) =
       selected_tables (SelectImplementation env s)"
proof -
  have "selected (SelectImplementation env s)"
    by (rule selected_SelectImplementation)
  then have "SelectImplementation env' (SelectImplementation env s) = SelectImplementation env s"
    by (subst SelectImplementation_def) simp
  then show ?thesis by simp
qed

text \<open>
  C6. When \<^verbatim>\<open>cpuinfo_initialize\<close> fails, the call returns a state (the function has no
  error result) in which the three pointers are unchanged, so from the initial state the
  default tables are still selected, and one error line was logged.
\<close>

theorem SelectImplementation_probe_failure:
  assumes "CPU_ARCH_SSE env" "\<not> cpuinfo_initialize env"
  shows "selected_tables (SelectImplementation env s) = selected_tables s
         \<and> selected_tables (SelectImplementation env initial_state) = (Default, Default, Default)
         \<and> log_output (SelectImplementation env initial_state) =
             [(LOG_ERROR, ''cpuinfo_initialize() failed, using default implementation'')]"
  using assms
  by (simp add: SelectImplementation_def Log_Print_def initial_state_def selected_tables_def)

theorem SelectImplementation_probe_failure_witness:
  "CPU_ARCH_SSE (env_sse4_only_asks_avx2\<lparr>cpuinfo_initialize := False\<rparr>)
   \<and> \<not> cpuinfo_initialize (env_sse4_only_asks_avx2\<lparr>cpuinfo_initialize := False\<rparr>)
   \<and> selected_tables
        (SelectImplementation (env_sse4_only_asks_avx2\<lparr>cpuinfo_initialize := False\<rparr>) initial_state) =
       (Default, Default, Default)
   \<and> log_output
        (SelectImplementation (env_sse4_only_asks_avx2\<lparr>cpuinfo_initialize := False\<rparr>) initial_state) =
       [(LOG_ERROR, ''cpuinfo_initialize() failed, using default implementation'')]"
  using SelectImplementation_probe_failure
          [of "env_sse4_only_asks_avx2\<lparr>cpuinfo_initialize := False\<rparr>" initial_state]
  by (simp add: env_sse4_only_asks_avx2_def)

lemma same_variant_step:
  assumes "\<exists>i. selected_tables s = (i, i, i)"
  shows "\<exists>i. selected_tables (SelectImplementation env s) = (i, i, i)"
  using assms by (auto simp: SelectImplementation_def Let_def)

lemma same_variant_calls:
  "\<exists>i. selected_tables s = (i, i, i) \<Longrightarrow>
   \<exists>i. selected_tables (SelectImplementation_calls envs s) = (i, i, i)"
  unfolding SelectImplementation_calls_def
proof (induction envs arbitrary: s)
  case Nil
  then show ?case by simp
next
  case (Cons env envs)
  show ?case
    using Cons.IH [OF same_variant_step [OF Cons.prems, of env]] by simp
qed

text \<open>
  C7. After every return the three pointers name the tables of one variant: this holds for
  the pointers as initialised, and every call, on each of its paths, either leaves all
  three or assigns all three to the same namespace. So it holds after any number of
  calls from program start.
\<close>

theorem SelectImplementation_same_variant:
  "\<exists>i. selected_tables (SelectImplementation_calls envs initial_state) = (i, i, i)"
  by (rule same_variant_calls) simp

section \<open>Looking up an empty message\<close>

lemma LookupTranslationString_empty_msg:
  assumes "s_translation_string_cache s \<noteq> []"
  shows "LookupTranslationString impl context [] s = Inr ((0, 0), s)"
  using assms by (simp add: LookupTranslationString_def vector_ref_def)

lemma translate_into_cache_length:
  "translate_into_cache impl context msg s = Inr (r, s') \<Longrightarrow>
   length (s_translation_string_cache s') = length (s_translation_string_cache s)"
  by (auto simp: translate_into_cache_def Let_def split: sum.splits option.splits if_splits)

lemma add_string_cache_nonempty:
  assumes "add_string impl context msg s = Inr (r, s')"
  shows "s_translation_string_cache s' \<noteq> []"
  using assms
  by (auto simp: add_string_def vector_ref_def Let_def
           split: sum.splits option.splits if_splits prod.splits)

lemma LookupTranslationString_then_empty_msg:
  assumes "msg \<noteq> []"
    and "LookupTranslationString impl context msg initial_translation_state = Inr (r, s')"
  shows "LookupTranslationString impl context' [] s' = Inr ((0, 0), s')"
proof -
  have "add_string impl context msg initial_translation_state = Inr (r, s')"
    using assms by (simp add: LookupTranslationString_def initial_translation_state_def)
  then have "s_translation_string_cache s' \<noteq> []"
    by (rule add_string_cache_nonempty)
  then show ?thesis
    by (rule LookupTranslationString_empty_msg)
qed

text \<open>
  C9. The first lookup of a program, when it is for an empty message, indexes element 0
  of a vector that is still empty: the access is out of bounds. (Once a lookup of a
  non-empty message has resized the vector, the empty message yields index 0 and length
  0 and leaves the state as it was.)
\<close>

theorem LookupTranslationString_empty_msg_uninitialized:
  "LookupTranslationString impl context [] initial_translation_state = Inl OutOfBounds"
  by (simp add: LookupTranslationString_def vector_ref_def initial_translation_state_def)

section \<open>Clipping of the rasterizer primitives\<close>

lemma in_framebuffer_dims:
  "fb_width fb' = fb_width fb \<Longrightarrow> fb_height fb' = fb_height fb \<Longrightarrow>
   in_framebuffer fb' p = in_framebuffer fb p"
  by (simp add: in_framebuffer_def)


lemma ShadePixel_Inr:
  assumes "ShadePixel pl p st = Inr st'"
  shows "st' = st \<or>
         (in_framebuffer (fst st) p \<and>
          (\<exists>v. st' = ((fst st)\<lparr>fb_pixels := (fb_pixels (fst st))(p := v)\<rparr>, snd st @ [p])))"
  using assms
  by (auto simp: ShadePixel_def GetPixel_def SetPixel_def split: option.splits if_splits)



lemma ShadePixel_writes_within:
  assumes "ShadePixel pl p st = Inr st'" "clip_test da fb p" "writes_within da fb st"
  shows "writes_within da fb st'"
proof -
  from ShadePixel_Inr [OF assms(1)] show ?thesis
  proof
    assume "st' = st"
    then show ?thesis using assms(3) by simp
  next
    assume w: "in_framebuffer (fst st) p \<and>
      (\<exists>v. st' = ((fst st)\<lparr>fb_pixels := (fb_pixels (fst st))(p := v)\<rparr>, snd st @ [p]))"
    then obtain v where st': "st' = ((fst st)\<lparr>fb_pixels := (fb_pixels (fst st))(p := v)\<rparr>, snd st @ [p])"
      by blast
    show ?thesis
      using assms(2,3) by (auto simp: st' writes_within_def writes_clipped_def clip_test_def)
  qed
qed

lemma for_each_invariant:
  assumes "for_each xs f s = Inr s'" "I s"
    and "\<And>x s s'. x \<in> set xs \<Longrightarrow> I s \<Longrightarrow> f x s = Inr s' \<Longrightarrow> I s'"
  shows "I s'"
  using assms
proof (induction xs arbitrary: s)
  case Nil
  then show ?case by simp
next
  case (Cons x xs)
  from Cons.prems(1) obtain s1 where s1: "f x s = Inr s1" "for_each xs f s1 = Inr s'"
    by (auto split: sum.splits)
  have i1: "I s1"
    using Cons.prems(3) [of x s s1] Cons.prems(2) s1(1) by simp
  have step: "\<And>y t t'. y \<in> set xs \<Longrightarrow> I t \<Longrightarrow> f y t = Inr t' \<Longrightarrow> I t'"
    using Cons.prems(3) by (meson list.set_intros(2))
  show ?case
    by (rule Cons.IH [OF s1(2) i1 step])
qed


text \<open>
  The shape shared by the three routines: the pipeline runs on the positions of a list
  that pass a test, and the test holds in the drawing area only.
\<close>

lemma guarded_loop_writes_within:
  assumes "for_each ps (\<lambda>p st. if g p then ShadePixel pl p st else Inr st) st = Inr st'"
    and "writes_within da fb st"
    and "\<And>p. p \<in> set ps \<Longrightarrow> g p \<Longrightarrow> clip_test da fb p"
  shows "writes_within da fb st'"
proof (rule for_each_invariant [OF assms(1), where I = "writes_within da fb"])
  show "writes_within da fb st" by (rule assms(2))
next
  fix x s s'
  assume "x \<in> set ps" "writes_within da fb s"
    "(if g x then ShadePixel pl x s else Inr s) = Inr s'"
  then show "writes_within da fb s'"
    using assms(3) [of x] ShadePixel_writes_within [of pl x s s' da fb]
    by (cases "g x") auto
qed























end
